theory Spec2Isabelle
  imports Main "HOL-Library.Sublist"
begin

section \<open>Go values shared by both packages\<close>

text \<open>
  A Go call either returns or panics.  The only panic the modelled code can raise is
  the dereference of a nil pointer (\<^verbatim>\<open>*instance.Status\<close>, \<^verbatim>\<open>*instance.Name\<close>,
  \<^verbatim>\<open>*instance.ID\<close>, a method called through a nil response).
\<close>

datatype 'a result = Return 'a | Panic

text \<open>
  Errors.  \<open>External\<close> is an error value made outside the two files (by the IBM SDK or by
  the client factory); \<open>Wrap err msg\<close> is \<^verbatim>\<open>errors.Wrap(err, msg)\<close>, \<open>Wrapf err format args\<close> is
  \<^verbatim>\<open>errors.Wrapf(err, format, args...)\<close>, and \<open>VPCResourceNotFoundError\<close> is the typed
  error \<^verbatim>\<open>&VPCResourceNotFoundError{}\<close> of package ibmclient.
\<close>

type_synonym sdk_error = string

datatype error =
    External sdk_error
  | Wrap error string
  | Wrapf error string "string list"
  | VPCResourceNotFoundError

text \<open>\<^verbatim>\<open>context.Context\<close>, as far as the code builds contexts.  The duration
  (\<^verbatim>\<open>time.Duration\<close>) is in nanoseconds.\<close>

datatype "context" = Background | TODO | WithTimeout "context" int

definition time_Minute :: int where
  "time_Minute = 60 * 1000000000"

text \<open>
  \<^verbatim>\<open>vpcv1.Instance\<close>: the three fields the code reads, each a \<^verbatim>\<open>*string\<close>
  (\<open>None\<close> is the nil pointer).
\<close>

record Instance =
  ID :: "string option"
  Name :: "string option"
  Status :: "string option"

section \<open>Package hibernation: the IBM Cloud actuator\<close>

subsection \<open>State sets\<close>

text \<open>\<^verbatim>\<open>sets.NewString\<close> and \<^verbatim>\<open>Union\<close> of the file's \<^verbatim>\<open>var\<close> block.\<close>

definition ibmRunningStates :: "string set" where
  "ibmRunningStates = {''running''}"

definition ibmStoppedStates :: "string set" where
  "ibmStoppedStates = {''stopped''}"

definition ibmPendingStates :: "string set" where
  "ibmPendingStates = {''pending''}"

definition ibmStoppingStates :: "string set" where
  "ibmStoppingStates = {''stopping''}"

definition ibmRunningOrPendingStates :: "string set" where
  "ibmRunningOrPendingStates = ibmRunningStates \<union> ibmPendingStates"

definition ibmStoppedOrStoppingStates :: "string set" where
  "ibmStoppedOrStoppingStates = ibmStoppedStates \<union> ibmStoppingStates"

definition ibmNotRunningStates :: "string set" where
  "ibmNotRunningStates = ibmStoppedOrStoppingStates \<union> ibmPendingStates"

definition ibmNotStoppedStates :: "string set" where
  "ibmNotStoppedStates = ibmRunningOrPendingStates \<union> ibmStoppingStates"

text \<open>
  Modelled from the spec: the four operations pass the package-level variables
  \<^verbatim>\<open>runningOrPendingStates\<close>, \<^verbatim>\<open>stoppedOrStoppingStates\<close>, \<^verbatim>\<open>notRunningStates\<close> and
  \<^verbatim>\<open>notStoppedStates\<close> (without the \<^verbatim>\<open>ibm\<close> prefix), which are declared in another file
  of package hibernation.  Their members are taken from the spec's
  \<open>RunningOrPending = {Running, Pending}\<close>, \<open>StoppedOrStopping = {Stopped, Stopping}\<close>,
  \<open>NotRunning = StoppedOrStopping \<union> {Pending}\<close>, \<open>NotStopped = RunningOrPending \<union> {Stopping}\<close>,
  with the raw strings of its scenarios.
\<close>

definition runningOrPendingStates :: "string set" where
  "runningOrPendingStates = {''running'', ''pending''}"

definition stoppedOrStoppingStates :: "string set" where
  "stoppedOrStoppingStates = {''stopped'', ''stopping''}"

definition notRunningStates :: "string set" where
  "notRunningStates = stoppedOrStoppingStates \<union> {''pending''}"

definition notStoppedStates :: "string set" where
  "notStoppedStates = runningOrPendingStates \<union> {''stopping''}"

subsection \<open>The client interface and the actuator\<close>

text \<open>
  \<^verbatim>\<open>ibmclient.API\<close>, restricted to the three methods the actuator calls.  A method
  is given by what it answers; the calls an operation makes are recorded in the order it
  makes them.
\<close>

record API =
  API_GetVPCInstances :: "context \<Rightarrow> string \<Rightarrow> (error + Instance list) result"
  API_StartInstances :: "Instance list \<Rightarrow> error option result"
  API_StopInstances :: "Instance list \<Rightarrow> error option result"

datatype api_call =
    GetVPCInstances_call "context" string
  | StartInstances_call "Instance list"
  | StopInstances_call "Instance list"

text \<open>
  Of the cluster deployment the operations read \<^verbatim>\<open>cd.Spec.ClusterMetadata.InfraID\<close>;
  the Kubernetes client and the logger are only handed to \<^verbatim>\<open>ibmCloudClientFn\<close> and are
  left out.
\<close>

record ClusterDeployment =
  InfraID :: string

record ibmCloudActuator =
  ibmCloudClientFn :: "ClusterDeployment \<Rightarrow> error + API"

text \<open>
  The loop of \<^verbatim>\<open>getIBMCloudClusterInstances\<close>: \<open>result\<close> is the slice built so far
  (a nil slice and an empty one behave alike under \<^verbatim>\<open>len\<close>, \<^verbatim>\<open>range\<close> and \<^verbatim>\<open>append\<close>).
\<close>

fun filterStates :: "string set \<Rightarrow> Instance list \<Rightarrow> Instance list \<Rightarrow> Instance list result" where
  "filterStates states result [] = Return result"
| "filterStates states result (i # instances) =
     (case Status i of
        None \<Rightarrow> Panic
      | Some status \<Rightarrow>
          filterStates states (if status \<in> states then result @ [i] else result) instances)"

definition getIBMCloudClusterInstances ::
  "ClusterDeployment \<Rightarrow> API \<Rightarrow> string set \<Rightarrow> (error + Instance list) result \<times> api_call list" where
  "getIBMCloudClusterInstances cd c states =
     (let infraID = InfraID cd;
          calls = [GetVPCInstances_call TODO infraID]
      in case API_GetVPCInstances c TODO infraID of
           Panic \<Rightarrow> (Panic, calls)
         | Return (Inl err) \<Rightarrow> (Return (Inl err), calls)
         | Return (Inr instances) \<Rightarrow>
             (case filterStates states [] instances of
                Panic \<Rightarrow> (Panic, calls)
              | Return result \<Rightarrow> (Return (Inr result), calls)))"

definition StopMachines :: "ibmCloudActuator \<Rightarrow> ClusterDeployment \<Rightarrow> error option result \<times> api_call list" where
  "StopMachines a cd =
     (case ibmCloudClientFn a cd of
        Inl err \<Rightarrow> (Return (Some err), [])
      | Inr ibmCloudClient \<Rightarrow>
          (case getIBMCloudClusterInstances cd ibmCloudClient runningOrPendingStates of
             (Panic, calls) \<Rightarrow> (Panic, calls)
           | (Return (Inl err), calls) \<Rightarrow> (Return (Some err), calls)
           | (Return (Inr instances), calls) \<Rightarrow>
               if length instances = 0 then (Return None, calls)
               else (case API_StopInstances ibmCloudClient instances of
                       Panic \<Rightarrow> (Panic, calls @ [StopInstances_call instances])
                     | Return (Some err) \<Rightarrow> (Return (Some err), calls @ [StopInstances_call instances])
                     | Return None \<Rightarrow> (Return None, calls @ [StopInstances_call instances]))))"

definition StartMachines :: "ibmCloudActuator \<Rightarrow> ClusterDeployment \<Rightarrow> error option result \<times> api_call list" where
  "StartMachines a cd =
     (case ibmCloudClientFn a cd of
        Inl err \<Rightarrow> (Return (Some err), [])
      | Inr ibmCloudClient \<Rightarrow>
          (case getIBMCloudClusterInstances cd ibmCloudClient stoppedOrStoppingStates of
             (Panic, calls) \<Rightarrow> (Panic, calls)
           | (Return (Inl err), calls) \<Rightarrow> (Return (Some err), calls)
           | (Return (Inr instances), calls) \<Rightarrow>
               if length instances = 0 then (Return None, calls)
               else (case API_StartInstances ibmCloudClient instances of
                       Panic \<Rightarrow> (Panic, calls @ [StartInstances_call instances])
                     | Return (Some err) \<Rightarrow> (Return (Some err), calls @ [StartInstances_call instances])
                     | Return None \<Rightarrow> (Return None, calls @ [StartInstances_call instances]))))"

text \<open>
  \<^verbatim>\<open>ibmCloudInstanceNames\<close>: the slice is made with \<^verbatim>\<open>make\<close>, so it is never nil, and
  \<^verbatim>\<open>names[i] = *instance.Name\<close> fills it in order.
\<close>

fun ibmCloudInstanceNames :: "Instance list \<Rightarrow> string list result" where
  "ibmCloudInstanceNames [] = Return []"
| "ibmCloudInstanceNames (instance # instances) =
     (case Name instance of
        None \<Rightarrow> Panic
      | Some n \<Rightarrow>
          (case ibmCloudInstanceNames instances of
             Panic \<Rightarrow> Panic
           | Return names \<Rightarrow> Return (n # names)))"

text \<open>
  The observers return \<^verbatim>\<open>(bool, []string, error)\<close>; the slice is \<open>None\<close> where the code
  returns a nil slice.
\<close>

definition MachinesRunning ::
  "ibmCloudActuator \<Rightarrow> ClusterDeployment \<Rightarrow> (bool \<times> string list option \<times> error option) result \<times> api_call list" where
  "MachinesRunning a cd =
     (case ibmCloudClientFn a cd of
        Inl err \<Rightarrow> (Return (False, None, Some err), [])
      | Inr ibmCloudClient \<Rightarrow>
          (case getIBMCloudClusterInstances cd ibmCloudClient notRunningStates of
             (Panic, calls) \<Rightarrow> (Panic, calls)
           | (Return (Inl err), calls) \<Rightarrow> (Return (False, None, Some err), calls)
           | (Return (Inr instances), calls) \<Rightarrow>
               (case ibmCloudInstanceNames instances of
                  Panic \<Rightarrow> (Panic, calls)
                | Return names \<Rightarrow> (Return (length instances = 0, Some names, None), calls))))"

definition MachinesStopped ::
  "ibmCloudActuator \<Rightarrow> ClusterDeployment \<Rightarrow> (bool \<times> string list option \<times> error option) result \<times> api_call list" where
  "MachinesStopped a cd =
     (case ibmCloudClientFn a cd of
        Inl err \<Rightarrow> (Return (False, None, Some err), [])
      | Inr ibmCloudClient \<Rightarrow>
          (case getIBMCloudClusterInstances cd ibmCloudClient notStoppedStates of
             (Panic, calls) \<Rightarrow> (Panic, calls)
           | (Return (Inl err), calls) \<Rightarrow> (Return (False, None, Some err), calls)
           | (Return (Inr instances), calls) \<Rightarrow>
               (case ibmCloudInstanceNames instances of
                  Panic \<Rightarrow> (Panic, calls)
                | Return names \<Rightarrow> (Return (length instances = 0, Some names, None), calls))))"

section \<open>Package ibmclient: the client over the IBM SDK\<close>

subsection \<open>The SDK services\<close>

text \<open>
  The SDK is outside the repository.  A service object is given by what its methods
  answer; a method returns its result (a pointer, \<open>None\<close> when nil), for some methods the
  \<^verbatim>\<open>*core.DetailedResponse\<close>, and an error (\<open>None\<close> when nil).
\<close>

record DetailedResponse =
  StatusCode :: int

text \<open>
  \<^verbatim>\<open>detailedResponse.GetStatusCode()\<close> reads the \<^verbatim>\<open>StatusCode\<close> field through the
  pointer, which panics on a nil response.
\<close>

definition GetStatusCode :: "DetailedResponse option \<Rightarrow> int result" where
  "GetStatusCode response = (case response of None \<Rightarrow> Panic | Some r \<Rightarrow> Return (StatusCode r))"

definition http_StatusNotFound :: int where
  "http_StatusNotFound = 404"

record ListInstancesOptions =
  VPCName :: "string option"

record InstanceCollection =
  Instances :: "Instance list"

record CreateInstanceActionOptions =
  InstanceID :: "string option"
  Type :: "string option"

definition CreateInstanceActionOptionsTypeStopConst :: string where
  "CreateInstanceActionOptionsTypeStopConst = ''stop''"

definition CreateInstanceActionOptionsTypeStartConst :: string where
  "CreateInstanceActionOptionsTypeStartConst = ''start''"

datatype Subnet = Subnet string

datatype VPC = VPC string

record Region =
  Endpoint :: "string option"

record RegionCollection =
  Regions :: "Region list"

datatype ResourceInstance = ResourceInstance string

text \<open>
  \<^verbatim>\<open>*vpcv1.VpcV1\<close>.  \<open>vpcAPI_CreateInstanceAction\<close> gets the actions issued before it
  in the same invocation, so that its answer may depend on them; \<open>vpcAPI_GetVPC\<close> gets the
  service URL in force, which \<^verbatim>\<open>SetServiceURL\<close> has set.
\<close>

record VpcV1 =
  vpcAPI_ListInstances :: "ListInstancesOptions \<Rightarrow> InstanceCollection option \<times> sdk_error option"
  vpcAPI_CreateInstanceAction ::
    "CreateInstanceActionOptions list \<Rightarrow> CreateInstanceActionOptions \<Rightarrow> sdk_error option"
  vpcAPI_GetSubnet :: "string \<Rightarrow> Subnet option \<times> DetailedResponse option \<times> sdk_error option"
  vpcAPI_SetServiceURL :: "string \<Rightarrow> sdk_error option"
  vpcAPI_GetVPC :: "string \<Rightarrow> string \<Rightarrow> VPC option \<times> DetailedResponse option \<times> sdk_error option"
  vpcAPI_ListRegionsWithContext :: "context \<Rightarrow> RegionCollection option \<times> sdk_error option"

record ResourceControllerV2 =
  controllerAPI_GetResourceInstance :: "string \<Rightarrow> ResourceInstance option \<times> sdk_error option"

record Client =
  controllerAPI :: ResourceControllerV2
  vpcAPI :: VpcV1

text \<open>
  A call that reaches the SDK: the method, and the context handed to it (\<open>None\<close> for a
  method that takes no context).
\<close>

datatype sdk_call = SdkCall string "context option"

subsection \<open>Client methods\<close>

text \<open>
  \<^verbatim>\<open>GetCISInstance\<close>: the context made by \<^verbatim>\<open>context.WithTimeout\<close> is bound to the
  blank identifier, and \<^verbatim>\<open>GetResourceInstance\<close> takes no context.
\<close>

definition GetCISInstance ::
  "Client \<Rightarrow> context \<Rightarrow> string \<Rightarrow> (ResourceInstance option \<times> error option) \<times> sdk_call list" where
  "GetCISInstance c ctx crnstr =
     (let blank = WithTimeout ctx (1 * time_Minute);
          options = crnstr;
          (resourceInstance, err) = controllerAPI_GetResourceInstance (controllerAPI c) options;
          calls = [SdkCall ''GetResourceInstance'' None]
      in case err of
           Some e \<Rightarrow> ((None, Some (Wrap (External e) ''failed to get cis instances'')), calls)
         | None \<Rightarrow> ((resourceInstance, None), calls))"

text \<open>\<^verbatim>\<open>GetSubnet\<close>: the status code is read before the error is looked at.\<close>

definition GetSubnet :: "Client \<Rightarrow> context \<Rightarrow> string \<Rightarrow> (Subnet option \<times> error option) result" where
  "GetSubnet c ctx subnetID =
     (let blank = WithTimeout ctx (1 * time_Minute);
          (subnet, detailedResponse, err) = vpcAPI_GetSubnet (vpcAPI c) subnetID
      in case GetStatusCode detailedResponse of
           Panic \<Rightarrow> Panic
         | Return code \<Rightarrow>
             if code = http_StatusNotFound then Return (None, Some VPCResourceNotFoundError)
             else Return (subnet, map_option External err))"

definition getVPCRegions :: "Client \<Rightarrow> context \<Rightarrow> (error + Region list) result" where
  "getVPCRegions c ctx =
     (case vpcAPI_ListRegionsWithContext (vpcAPI c) ctx of
        (listRegionsResponse, Some err) \<Rightarrow> Return (Inl (Wrap (External err) ''failed to list vpc regions''))
      | (None, None) \<Rightarrow> Panic
      | (Some listRegionsResponse, None) \<Rightarrow> Return (Inr (Regions listRegionsResponse)))"

text \<open>
  The loop of \<^verbatim>\<open>GetVPC\<close> over the regions.  The service URL the loop leaves behind in
  the shared service object is not part of the result.
\<close>

fun GetVPC_regions :: "Client \<Rightarrow> string \<Rightarrow> Region list \<Rightarrow> (VPC option \<times> error option) result" where
  "GetVPC_regions c vpcID [] = Return (None, Some VPCResourceNotFoundError)"
| "GetVPC_regions c vpcID (region # regions) =
     (case Endpoint region of
        None \<Rightarrow> Panic
      | Some endpoint \<Rightarrow>
          (case vpcAPI_SetServiceURL (vpcAPI c) (endpoint @ ''/v1'') of
             Some err \<Rightarrow> Return (None, Some (Wrap (External err) ''failed to set vpc api service url''))
           | None \<Rightarrow>
               (case vpcAPI_GetVPC (vpcAPI c) (endpoint @ ''/v1'') vpcID of
                  (vpc, detailedResponse, Some err) \<Rightarrow>
                    (case GetStatusCode detailedResponse of
                       Panic \<Rightarrow> Panic
                     | Return code \<Rightarrow>
                         if code \<noteq> http_StatusNotFound then Return (None, Some (External err))
                         else GetVPC_regions c vpcID regions)
                | (Some vpc, detailedResponse, None) \<Rightarrow> Return (Some vpc, None)
                | (None, detailedResponse, None) \<Rightarrow> GetVPC_regions c vpcID regions)))"

definition GetVPC :: "Client \<Rightarrow> context \<Rightarrow> string \<Rightarrow> (VPC option \<times> error option) result" where
  "GetVPC c ctx vpcID =
     (let blank = WithTimeout ctx (1 * time_Minute)
      in case getVPCRegions c ctx of
           Panic \<Rightarrow> Panic
         | Return (Inl err) \<Rightarrow> Return (None, Some err)
         | Return (Inr regions) \<Rightarrow> GetVPC_regions c vpcID regions)"

text \<open>\<^verbatim>\<open>strings.Contains(s, substr)\<close>: \<open>substr\<close> occurs in \<open>s\<close> as a contiguous run.\<close>

definition strings_Contains :: "string \<Rightarrow> string \<Rightarrow> bool" where
  "strings_Contains s substr = sublist substr s"

text \<open>The loop of \<^verbatim>\<open>GetVPCInstances\<close>; \<open>instances\<close> is the slice built so far.\<close>

fun selectByName :: "string \<Rightarrow> Instance list \<Rightarrow> Instance list \<Rightarrow> Instance list result" where
  "selectByName infraID instances [] = Return instances"
| "selectByName infraID instances (instance # rest) =
     (case Name instance of
        None \<Rightarrow> Panic
      | Some n \<Rightarrow>
          selectByName infraID
            (if strings_Contains n infraID then instances @ [instance] else instances) rest)"

text \<open>
  \<^verbatim>\<open>GetVPCInstances\<close> does not use its context: \<^verbatim>\<open>ListInstances\<close> takes none.
\<close>

definition GetVPCInstances ::
  "Client \<Rightarrow> context \<Rightarrow> string \<Rightarrow> (error + Instance list) result \<times> sdk_call list" where
  "GetVPCInstances c ctx infraID =
     (let options = \<lparr>VPCName = Some (infraID @ ''-vpc'')\<rparr>;
          calls = [SdkCall ''ListInstances'' None]
      in case vpcAPI_ListInstances (vpcAPI c) options of
           (result, Some err) \<Rightarrow> (Return (Inl (Wrap (External err) ''failed to list vpc instances'')), calls)
         | (None, None) \<Rightarrow> (Panic, calls)
         | (Some result, None) \<Rightarrow>
             (case selectByName infraID [] (Instances result) of
                Panic \<Rightarrow> (Panic, calls)
              | Return instances \<Rightarrow> (Return (Inr instances), calls)))"

text \<open>
  \<^verbatim>\<open>StopInstances\<close> and \<^verbatim>\<open>StartInstances\<close>: one \<^verbatim>\<open>CreateInstanceAction\<close> per instance,
  in order.  \<open>issued\<close> is the list of actions sent so far; it is returned with the result.
\<close>

fun StopInstances_from ::
  "Client \<Rightarrow> CreateInstanceActionOptions list \<Rightarrow> Instance list \<Rightarrow>
   error option result \<times> CreateInstanceActionOptions list" where
  "StopInstances_from c issued [] = (Return None, issued)"
| "StopInstances_from c issued (instance # instances) =
     (case ID instance of
        None \<Rightarrow> (Panic, issued)
      | Some instanceID \<Rightarrow>
          (let options = \<lparr>InstanceID = Some instanceID, Type = Some CreateInstanceActionOptionsTypeStopConst\<rparr>
           in case vpcAPI_CreateInstanceAction (vpcAPI c) issued options of
                Some err \<Rightarrow>
                  (Return (Some (Wrap (External err) ''failed to create stop instance action'')),
                   issued @ [options])
              | None \<Rightarrow> StopInstances_from c (issued @ [options]) instances))"

definition StopInstances ::
  "Client \<Rightarrow> Instance list \<Rightarrow> error option result \<times> CreateInstanceActionOptions list" where
  "StopInstances c instances = StopInstances_from c [] instances"

fun StartInstances_from ::
  "Client \<Rightarrow> CreateInstanceActionOptions list \<Rightarrow> Instance list \<Rightarrow>
   error option result \<times> CreateInstanceActionOptions list" where
  "StartInstances_from c issued [] = (Return None, issued)"
| "StartInstances_from c issued (instance # instances) =
     (case ID instance of
        None \<Rightarrow> (Panic, issued)
      | Some instanceID \<Rightarrow>
          (let options = \<lparr>InstanceID = Some instanceID, Type = Some CreateInstanceActionOptionsTypeStartConst\<rparr>
           in case vpcAPI_CreateInstanceAction (vpcAPI c) issued options of
                Some err \<Rightarrow>
                  (case Name instance of
                     None \<Rightarrow> (Panic, issued @ [options])
                   | Some n \<Rightarrow>
                       (Return (Some (Wrapf (External err)
                          ''failed to create start instance action for instance %q'' [n])),
                        issued @ [options]))
              | None \<Rightarrow> StartInstances_from c (issued @ [options]) instances))"

definition StartInstances ::
  "Client \<Rightarrow> Instance list \<Rightarrow> error option result \<times> CreateInstanceActionOptions list" where
  "StartInstances c instances = StartInstances_from c [] instances"


section \<open>Predicates and test doubles used in the statements\<close>

definition statusIn :: "string set \<Rightarrow> Instance \<Rightarrow> bool" where
  "statusIn states i = (case Status i of None \<Rightarrow> False | Some status \<Rightarrow> status \<in> states)"

definition nameContains :: "string \<Rightarrow> Instance \<Rightarrow> bool" where
  "nameContains infraID i = (case Name i of None \<Rightarrow> False | Some n \<Rightarrow> strings_Contains n infraID)"

text \<open>An instance with all three fields set.\<close>

definition vm :: "string \<Rightarrow> string \<Rightarrow> Instance" where
  "vm n status = \<lparr>ID = Some (''id-'' @ n), Name = Some n, Status = Some status\<rparr>"

text \<open>A client double that lists the given instances and accepts every action.\<close>

definition stubClient :: "Instance list \<Rightarrow> API" where
  "stubClient instances =
     \<lparr>API_GetVPCInstances = (\<lambda>ctx infraID. Return (Inr instances)),
      API_StartInstances = (\<lambda>targets. Return None),
      API_StopInstances = (\<lambda>targets. Return None)\<rparr>"

definition stubActuator :: "Instance list \<Rightarrow> ibmCloudActuator" where
  "stubActuator instances = \<lparr>ibmCloudClientFn = (\<lambda>cd. Inr (stubClient instances))\<rparr>"

definition cdX :: ClusterDeployment where
  "cdX = \<lparr>InfraID = ''x''\<rparr>"

text \<open>
  An SDK double: it lists \<open>listed\<close>, rejects the action on every instance ID in
  \<open>rejected\<close>, answers 404 to every subnet lookup, and answers 404 to a VPC lookup in
  every region but the one at \<open>broken\<close>, which answers 500.
\<close>

definition stubVpcV1 :: "Instance list \<Rightarrow> string list \<Rightarrow> Region list \<Rightarrow> VpcV1" where
  "stubVpcV1 listed rejected regions =
     \<lparr>vpcAPI_ListInstances = (\<lambda>options. (Some \<lparr>Instances = listed\<rparr>, None)),
      vpcAPI_CreateInstanceAction =
        (\<lambda>issued options. if InstanceID options \<in> Some ` set rejected then Some ''boom'' else None),
      vpcAPI_GetSubnet = (\<lambda>subnetID. (None, Some \<lparr>StatusCode = 404\<rparr>, Some ''subnet not found'')),
      vpcAPI_SetServiceURL = (\<lambda>url. None),
      vpcAPI_GetVPC =
        (\<lambda>url vpcID. if url = ''broken/v1'' then (None, Some \<lparr>StatusCode = 500\<rparr>, Some ''internal error'')
                      else (None, Some \<lparr>StatusCode = 404\<rparr>, Some ''vpc not found'')),
      vpcAPI_ListRegionsWithContext = (\<lambda>ctx. (Some \<lparr>Regions = regions\<rparr>, None))\<rparr>"

definition stubSDKClient :: "Instance list \<Rightarrow> string list \<Rightarrow> Region list \<Rightarrow> Client" where
  "stubSDKClient listed rejected regions =
     \<lparr>controllerAPI = \<lparr>controllerAPI_GetResourceInstance = (\<lambda>crnstr. (Some (ResourceInstance crnstr), None))\<rparr>,
      vpcAPI = stubVpcV1 listed rejected regions\<rparr>"


text \<open>A status that is set but is none of the four states the file names.\<close>

definition unknownStatus :: "Instance \<Rightarrow> bool" where
  "unknownStatus i =
     (case Status i of
        None \<Rightarrow> False
      | Some status \<Rightarrow>
          status \<notin> ibmRunningStates \<union> ibmStoppedStates \<union> ibmPendingStates \<union> ibmStoppingStates)"

text \<open>
  A region's lookup misses the VPC: its endpoint is set, the service URL is accepted, and
  the lookup either fails with status 404 or returns neither an error nor a VPC.  These
  are the branches of the loop of \<^verbatim>\<open>GetVPC\<close> that go on to the next region.
\<close>

definition regionMisses :: "Client \<Rightarrow> string \<Rightarrow> Region \<Rightarrow> bool" where
  "regionMisses c vpcID region =
     (case Endpoint region of
        None \<Rightarrow> False
      | Some endpoint \<Rightarrow>
          vpcAPI_SetServiceURL (vpcAPI c) (endpoint @ ''/v1'') = None \<and>
          (case vpcAPI_GetVPC (vpcAPI c) (endpoint @ ''/v1'') vpcID of
             (vpc, detailedResponse, Some err) \<Rightarrow> GetStatusCode detailedResponse = Return http_StatusNotFound
           | (Some vpc, detailedResponse, None) \<Rightarrow> False
           | (None, detailedResponse, None) \<Rightarrow> True))"

text \<open>
  An SDK double whose subnet and VPC lookups fail with the given response, which is
  \<open>None\<close> when the request fails before any response arrives.
\<close>

definition lookupVpcV1 :: "Region list \<Rightarrow> DetailedResponse option \<Rightarrow> VpcV1" where
  "lookupVpcV1 regions response =
     \<lparr>vpcAPI_ListInstances = (\<lambda>options. (Some \<lparr>Instances = []\<rparr>, None)),
      vpcAPI_CreateInstanceAction = (\<lambda>issued options. None),
      vpcAPI_GetSubnet = (\<lambda>subnetID. (None, response, Some ''lookup failed'')),
      vpcAPI_SetServiceURL = (\<lambda>url. None),
      vpcAPI_GetVPC = (\<lambda>url vpcID. (None, response, Some ''lookup failed'')),
      vpcAPI_ListRegionsWithContext = (\<lambda>ctx. (Some \<lparr>Regions = regions\<rparr>, None))\<rparr>"

definition lookupClient :: "Region list \<Rightarrow> DetailedResponse option \<Rightarrow> Client" where
  "lookupClient regions response =
     \<lparr>controllerAPI = \<lparr>controllerAPI_GetResourceInstance = (\<lambda>crnstr. (Some (ResourceInstance crnstr), None))\<rparr>,
      vpcAPI = lookupVpcV1 regions response\<rparr>"

section \<open>Properties\<close>

lemmas state_sets =
  ibmRunningStates_def ibmStoppedStates_def ibmPendingStates_def ibmStoppingStates_def
  ibmRunningOrPendingStates_def ibmStoppedOrStoppingStates_def ibmNotRunningStates_def
  ibmNotStoppedStates_def runningOrPendingStates_def stoppedOrStoppingStates_def
  notRunningStates_def notStoppedStates_def

lemma filterStates_filter:
  "\<forall>i\<in>set instances. Status i \<noteq> None \<Longrightarrow>
   filterStates states acc instances = Return (acc @ filter (statusIn states) instances)"
  by (induction instances arbitrary: acc) (auto simp: statusIn_def)


lemma ibmCloudInstanceNames_map:
  "\<forall>i\<in>set instances. Name i \<noteq> None \<Longrightarrow>
   ibmCloudInstanceNames instances = Return (map (\<lambda>i. the (Name i)) instances)"
  by (induction instances) auto

lemma getIBMCloudClusterInstances_listed:
  assumes "API_GetVPCInstances c TODO (InfraID cd) = Return (Inr instances)"
    and "\<forall>i\<in>set instances. Status i \<noteq> None"
  shows "getIBMCloudClusterInstances cd c states =
           (Return (Inr (filter (statusIn states) instances)), [GetVPCInstances_call TODO (InfraID cd)])"
  using assms by (simp add: getIBMCloudClusterInstances_def filterStates_filter)


lemma StopMachines_listed:
  assumes "ibmCloudClientFn a cd = Inr c"
    and "API_GetVPCInstances c TODO (InfraID cd) = Return (Inr instances)"
    and "\<forall>i\<in>set instances. Status i \<noteq> None"
  shows "StopMachines a cd =
           (if filter (statusIn runningOrPendingStates) instances = []
            then (Return None, [GetVPCInstances_call TODO (InfraID cd)])
            else (API_StopInstances c (filter (statusIn runningOrPendingStates) instances),
                  [GetVPCInstances_call TODO (InfraID cd),
                   StopInstances_call (filter (statusIn runningOrPendingStates) instances)]))"
  using assms
  by (simp add: StopMachines_def getIBMCloudClusterInstances_listed split: result.splits option.splits)

lemma StartMachines_listed:
  assumes "ibmCloudClientFn a cd = Inr c"
    and "API_GetVPCInstances c TODO (InfraID cd) = Return (Inr instances)"
    and "\<forall>i\<in>set instances. Status i \<noteq> None"
  shows "StartMachines a cd =
           (if filter (statusIn stoppedOrStoppingStates) instances = []
            then (Return None, [GetVPCInstances_call TODO (InfraID cd)])
            else (API_StartInstances c (filter (statusIn stoppedOrStoppingStates) instances),
                  [GetVPCInstances_call TODO (InfraID cd),
                   StartInstances_call (filter (statusIn stoppedOrStoppingStates) instances)]))"
  using assms
  by (simp add: StartMachines_def getIBMCloudClusterInstances_listed split: result.splits option.splits)

lemma MachinesRunning_listed:
  assumes "ibmCloudClientFn a cd = Inr c"
    and "API_GetVPCInstances c TODO (InfraID cd) = Return (Inr instances)"
    and "\<forall>i\<in>set instances. Status i \<noteq> None"
    and "\<forall>i\<in>set (filter (statusIn notRunningStates) instances). Name i \<noteq> None"
  shows "MachinesRunning a cd =
           (Return (filter (statusIn notRunningStates) instances = [],
                    Some (map (\<lambda>i. the (Name i)) (filter (statusIn notRunningStates) instances)),
                    None),
            [GetVPCInstances_call TODO (InfraID cd)])"
  using assms(1,2,3) ibmCloudInstanceNames_map[OF assms(4)]
  by (simp add: MachinesRunning_def getIBMCloudClusterInstances_listed)

lemma MachinesStopped_listed:
  assumes "ibmCloudClientFn a cd = Inr c"
    and "API_GetVPCInstances c TODO (InfraID cd) = Return (Inr instances)"
    and "\<forall>i\<in>set instances. Status i \<noteq> None"
    and "\<forall>i\<in>set (filter (statusIn notStoppedStates) instances). Name i \<noteq> None"
  shows "MachinesStopped a cd =
           (Return (filter (statusIn notStoppedStates) instances = [],
                    Some (map (\<lambda>i. the (Name i)) (filter (statusIn notStoppedStates) instances)),
                    None),
            [GetVPCInstances_call TODO (InfraID cd)])"
  using assms(1,2,3) ibmCloudInstanceNames_map[OF assms(4)]
  by (simp add: MachinesStopped_def getIBMCloudClusterInstances_listed)


text \<open>
  Claim C1.  When the client is built and the listing returns, \<open>StopMachines\<close> keeps the
  instances whose status is in \<open>runningOrPendingStates\<close>; if none is left it returns nil
  after the listing call alone, otherwise it calls \<^verbatim>\<open>StopInstances\<close> once, on exactly the
  kept instances, and returns what that call returns.  When every instance is stopped it
  returns nil and makes no call but the listing.
\<close>

theorem StopMachines_acts_on_running_or_pending:
  assumes "ibmCloudClientFn a cd = Inr c"
    and "API_GetVPCInstances c TODO (InfraID cd) = Return (Inr instances)"
    and "\<forall>i\<in>set instances. Status i \<noteq> None"
  shows "StopMachines a cd =
           (if filter (statusIn runningOrPendingStates) instances = []
            then (Return None, [GetVPCInstances_call TODO (InfraID cd)])
            else (API_StopInstances c (filter (statusIn runningOrPendingStates) instances),
                  [GetVPCInstances_call TODO (InfraID cd),
                   StopInstances_call (filter (statusIn runningOrPendingStates) instances)])) \<and>
         ((\<forall>i\<in>set instances. Status i = Some ''stopped'') \<longrightarrow>
            StopMachines a cd = (Return None, [GetVPCInstances_call TODO (InfraID cd)]))"
proof -
  have main: "StopMachines a cd =
           (if filter (statusIn runningOrPendingStates) instances = []
            then (Return None, [GetVPCInstances_call TODO (InfraID cd)])
            else (API_StopInstances c (filter (statusIn runningOrPendingStates) instances),
                  [GetVPCInstances_call TODO (InfraID cd),
                   StopInstances_call (filter (statusIn runningOrPendingStates) instances)]))"
    by (rule StopMachines_listed[OF assms])
  have "filter (statusIn runningOrPendingStates) instances = []"
    if "\<forall>i\<in>set instances. Status i = Some ''stopped''"
    using that by (auto simp: filter_empty_conv statusIn_def runningOrPendingStates_def)
  with main show ?thesis by simp
qed

theorem StopMachines_acts_on_running_or_pending_witness:
  "(ibmCloudClientFn (stubActuator [vm ''a'' ''running'', vm ''b'' ''stopped'']) cdX
      = Inr (stubClient [vm ''a'' ''running'', vm ''b'' ''stopped'']) \<and>
    API_GetVPCInstances (stubClient [vm ''a'' ''running'', vm ''b'' ''stopped'']) TODO (InfraID cdX)
      = Return (Inr [vm ''a'' ''running'', vm ''b'' ''stopped'']) \<and>
    Status (vm ''a'' ''running'') \<noteq> None \<and> Status (vm ''b'' ''stopped'') \<noteq> None \<and>
    StopMachines (stubActuator [vm ''a'' ''running'', vm ''b'' ''stopped'']) cdX
      = (Return None, [GetVPCInstances_call TODO ''x'', StopInstances_call [vm ''a'' ''running'']])) \<and>
   (ibmCloudClientFn (stubActuator [vm ''a'' ''stopped'', vm ''b'' ''stopped'']) cdX
      = Inr (stubClient [vm ''a'' ''stopped'', vm ''b'' ''stopped'']) \<and>
    API_GetVPCInstances (stubClient [vm ''a'' ''stopped'', vm ''b'' ''stopped'']) TODO (InfraID cdX)
      = Return (Inr [vm ''a'' ''stopped'', vm ''b'' ''stopped'']) \<and>
    Status (vm ''a'' ''stopped'') = Some ''stopped'' \<and> Status (vm ''b'' ''stopped'') = Some ''stopped'' \<and>
    StopMachines (stubActuator [vm ''a'' ''stopped'', vm ''b'' ''stopped'']) cdX
      = (Return None, [GetVPCInstances_call TODO ''x'']))"
proof -
  let ?A = "[vm ''a'' ''running'', vm ''b'' ''stopped'']"
  let ?B = "[vm ''a'' ''stopped'', vm ''b'' ''stopped'']"
  have a1: "ibmCloudClientFn (stubActuator ?A) cdX = Inr (stubClient ?A)"
    by (simp add: stubActuator_def)
  have a2: "API_GetVPCInstances (stubClient ?A) TODO (InfraID cdX) = Return (Inr ?A)"
    by (simp add: stubClient_def)
  have a3: "\<forall>i\<in>set ?A. Status i \<noteq> None"
    by (simp add: vm_def)
  have b1: "ibmCloudClientFn (stubActuator ?B) cdX = Inr (stubClient ?B)"
    by (simp add: stubActuator_def)
  have b2: "API_GetVPCInstances (stubClient ?B) TODO (InfraID cdX) = Return (Inr ?B)"
    by (simp add: stubClient_def)
  have b3: "\<forall>i\<in>set ?B. Status i \<noteq> None"
    by (simp add: vm_def)
  have b4: "\<forall>i\<in>set ?B. Status i = Some ''stopped''"
    by (simp add: vm_def)
  from StopMachines_acts_on_running_or_pending[OF a1 a2 a3]
  have A: "StopMachines (stubActuator ?A) cdX
      = (Return None, [GetVPCInstances_call TODO ''x'', StopInstances_call [vm ''a'' ''running'']])"
    by (simp add: statusIn_def vm_def runningOrPendingStates_def stubClient_def cdX_def)
  from StopMachines_acts_on_running_or_pending[OF b1 b2 b3, THEN conjunct2, THEN mp, OF b4]
  have B: "StopMachines (stubActuator ?B) cdX = (Return None, [GetVPCInstances_call TODO ''x''])"
    by (simp add: cdX_def)
  from a3 b4 have "Status (vm ''a'' ''running'') \<noteq> None" "Status (vm ''b'' ''stopped'') \<noteq> None"
    "Status (vm ''a'' ''stopped'') = Some ''stopped''" "Status (vm ''b'' ''stopped'') = Some ''stopped''"
    by simp_all
  with a1 a2 A b1 b2 B show ?thesis by blast
qed

lemma statusIn_known:
  assumes "states \<subseteq> ibmRunningStates \<union> ibmStoppedStates \<union> ibmPendingStates \<union> ibmStoppingStates"
  shows "filter (statusIn states) (filter (\<lambda>i. \<not> unknownStatus i) instances) = filter (statusIn states) instances"
proof -
  have "statusIn states i \<Longrightarrow> \<not> unknownStatus i" for i
    using assms by (auto simp: statusIn_def unknownStatus_def split: option.splits)
  then show ?thesis
    by (auto intro: filter_cong)
qed

lemma package_sets_known:
  "runningOrPendingStates \<subseteq> ibmRunningStates \<union> ibmStoppedStates \<union> ibmPendingStates \<union> ibmStoppingStates"
  "stoppedOrStoppingStates \<subseteq> ibmRunningStates \<union> ibmStoppedStates \<union> ibmPendingStates \<union> ibmStoppingStates"
  "notRunningStates \<subseteq> ibmRunningStates \<union> ibmStoppedStates \<union> ibmPendingStates \<union> ibmStoppingStates"
  "notStoppedStates \<subseteq> ibmRunningStates \<union> ibmStoppedStates \<union> ibmPendingStates \<union> ibmStoppingStates"
  unfolding state_sets by auto

text \<open>
  Claim C2.  When the client is built and the listing returns instances that carry a
  status and a name, \<open>MachinesRunning\<close> answers true exactly when no listed instance has a
  status in \<open>notRunningStates\<close>, and its stragglers are the names of the instances with
  such a status, in the order of the listing; \<open>MachinesStopped\<close> does the same over
  \<open>notStoppedStates\<close>.  For the single instance named a with status stopping,
  \<open>MachinesStopped\<close> answers (false, [a], nil).
\<close>

theorem observers_report_stragglers:
  assumes "ibmCloudClientFn a cd = Inr c"
    and "API_GetVPCInstances c TODO (InfraID cd) = Return (Inr instances)"
    and "\<forall>i\<in>set instances. Status i \<noteq> None \<and> Name i \<noteq> None"
  shows "MachinesRunning a cd =
           (Return (\<not> (\<exists>i\<in>set instances. statusIn notRunningStates i),
                    Some (map (\<lambda>i. the (Name i)) (filter (statusIn notRunningStates) instances)),
                    None),
            [GetVPCInstances_call TODO (InfraID cd)]) \<and>
         MachinesStopped a cd =
           (Return (\<not> (\<exists>i\<in>set instances. statusIn notStoppedStates i),
                    Some (map (\<lambda>i. the (Name i)) (filter (statusIn notStoppedStates) instances)),
                    None),
            [GetVPCInstances_call TODO (InfraID cd)]) \<and>
         MachinesStopped (stubActuator [\<lparr>ID = instanceID, Name = Some ''a'', Status = Some ''stopping''\<rparr>]) cd' =
           (Return (False, Some [''a''], None), [GetVPCInstances_call TODO (InfraID cd')])"
proof -
  from assms(3) have status: "\<forall>i\<in>set instances. Status i \<noteq> None"
    and names: "\<forall>i\<in>set (filter (statusIn states) instances). Name i \<noteq> None" for states
    by auto
  have empty: "(filter (statusIn states) instances = []) = (\<not> (\<exists>i\<in>set instances. statusIn states i))" for states
    by (auto simp: filter_empty_conv)
  have running: "MachinesRunning a cd =
           (Return (\<not> (\<exists>i\<in>set instances. statusIn notRunningStates i),
                    Some (map (\<lambda>i. the (Name i)) (filter (statusIn notRunningStates) instances)),
                    None),
            [GetVPCInstances_call TODO (InfraID cd)])"
    using MachinesRunning_listed[OF assms(1,2) status names] by (simp only: empty)
  have stopped: "MachinesStopped a cd =
           (Return (\<not> (\<exists>i\<in>set instances. statusIn notStoppedStates i),
                    Some (map (\<lambda>i. the (Name i)) (filter (statusIn notStoppedStates) instances)),
                    None),
            [GetVPCInstances_call TODO (InfraID cd)])"
    using MachinesStopped_listed[OF assms(1,2) status names] by (simp only: empty)
  have scenario: "MachinesStopped (stubActuator [\<lparr>ID = instanceID, Name = Some ''a'', Status = Some ''stopping''\<rparr>]) cd' =
           (Return (False, Some [''a''], None), [GetVPCInstances_call TODO (InfraID cd')])"
    by (simp add: MachinesStopped_def stubActuator_def stubClient_def getIBMCloudClusterInstances_def
        notStoppedStates_def runningOrPendingStates_def)
  from running stopped scenario show ?thesis by simp
qed

theorem observers_report_stragglers_witness:
  "ibmCloudClientFn (stubActuator [vm ''a'' ''running'', vm ''b'' ''stopped'', vm ''c'' ''pending'']) cdX
      = Inr (stubClient [vm ''a'' ''running'', vm ''b'' ''stopped'', vm ''c'' ''pending'']) \<and>
   API_GetVPCInstances (stubClient [vm ''a'' ''running'', vm ''b'' ''stopped'', vm ''c'' ''pending'']) TODO (InfraID cdX)
      = Return (Inr [vm ''a'' ''running'', vm ''b'' ''stopped'', vm ''c'' ''pending'']) \<and>
   Status (vm ''a'' ''running'') \<noteq> None \<and> Name (vm ''a'' ''running'') \<noteq> None \<and>
   Status (vm ''b'' ''stopped'') \<noteq> None \<and> Name (vm ''b'' ''stopped'') \<noteq> None \<and>
   Status (vm ''c'' ''pending'') \<noteq> None \<and> Name (vm ''c'' ''pending'') \<noteq> None \<and>
   MachinesRunning (stubActuator [vm ''a'' ''running'', vm ''b'' ''stopped'', vm ''c'' ''pending'']) cdX
      = (Return (False, Some [''b'', ''c''], None), [GetVPCInstances_call TODO ''x'']) \<and>
   MachinesStopped (stubActuator [vm ''a'' ''running'', vm ''b'' ''stopped'', vm ''c'' ''pending'']) cdX
      = (Return (False, Some [''a'', ''c''], None), [GetVPCInstances_call TODO ''x'']) \<and>
   MachinesStopped (stubActuator [\<lparr>ID = Some ''id-a'', Name = Some ''a'', Status = Some ''stopping''\<rparr>]) cdX
      = (Return (False, Some [''a''], None), [GetVPCInstances_call TODO ''x''])"
proof -
  let ?L = "[vm ''a'' ''running'', vm ''b'' ''stopped'', vm ''c'' ''pending'']"
  have h1: "ibmCloudClientFn (stubActuator ?L) cdX = Inr (stubClient ?L)"
    by (simp add: stubActuator_def)
  have h2: "API_GetVPCInstances (stubClient ?L) TODO (InfraID cdX) = Return (Inr ?L)"
    by (simp add: stubClient_def)
  have h3: "\<forall>i\<in>set ?L. Status i \<noteq> None \<and> Name i \<noteq> None"
    by (simp add: vm_def)
  note inst = observers_report_stragglers[OF h1 h2 h3, of "Some ''id-a''" cdX]
  have r: "MachinesRunning (stubActuator ?L) cdX
      = (Return (False, Some [''b'', ''c''], None), [GetVPCInstances_call TODO ''x''])"
    using inst[THEN conjunct1]
    by (simp add: statusIn_def vm_def notRunningStates_def stoppedOrStoppingStates_def cdX_def)
  have s: "MachinesStopped (stubActuator ?L) cdX
      = (Return (False, Some [''a'', ''c''], None), [GetVPCInstances_call TODO ''x''])"
    using inst[THEN conjunct2, THEN conjunct1]
    by (simp add: statusIn_def vm_def notStoppedStates_def runningOrPendingStates_def cdX_def)
  have b: "MachinesStopped (stubActuator [\<lparr>ID = Some ''id-a'', Name = Some ''a'', Status = Some ''stopping''\<rparr>]) cdX
      = (Return (False, Some [''a''], None), [GetVPCInstances_call TODO ''x''])"
    using inst[THEN conjunct2, THEN conjunct2] by (simp add: cdX_def)
  from h3 have "Status (vm ''a'' ''running'') \<noteq> None" "Name (vm ''a'' ''running'') \<noteq> None"
    "Status (vm ''b'' ''stopped'') \<noteq> None" "Name (vm ''b'' ''stopped'') \<noteq> None"
    "Status (vm ''c'' ''pending'') \<noteq> None" "Name (vm ''c'' ''pending'') \<noteq> None"
    by simp_all
  with h1 h2 r s b show ?thesis by blast
qed

text \<open>
  Claim C6.  \<open>StartMachines\<close> is \<open>StopMachines\<close> over \<open>stoppedOrStoppingStates\<close> and
  \<^verbatim>\<open>StartInstances\<close>.  When the listing is empty, \<open>StopMachines\<close> and \<open>StartMachines\<close>
  return nil after the listing call alone, and both observers answer true with an empty
  slice that is not nil.
\<close>

theorem StartMachines_symmetric_and_empty_listing:
  assumes "ibmCloudClientFn a cd = Inr c"
    and "API_GetVPCInstances c TODO (InfraID cd) = Return (Inr instances)"
    and "\<forall>i\<in>set instances. Status i \<noteq> None"
  shows "StartMachines a cd =
           (if filter (statusIn stoppedOrStoppingStates) instances = []
            then (Return None, [GetVPCInstances_call TODO (InfraID cd)])
            else (API_StartInstances c (filter (statusIn stoppedOrStoppingStates) instances),
                  [GetVPCInstances_call TODO (InfraID cd),
                   StartInstances_call (filter (statusIn stoppedOrStoppingStates) instances)])) \<and>
         (instances = [] \<longrightarrow>
            StopMachines a cd = (Return None, [GetVPCInstances_call TODO (InfraID cd)]) \<and>
            StartMachines a cd = (Return None, [GetVPCInstances_call TODO (InfraID cd)]) \<and>
            MachinesRunning a cd = (Return (True, Some [], None), [GetVPCInstances_call TODO (InfraID cd)]) \<and>
            MachinesStopped a cd = (Return (True, Some [], None), [GetVPCInstances_call TODO (InfraID cd)]))"
proof -
  note start = StartMachines_listed[OF assms]
  have "StopMachines a cd = (Return None, [GetVPCInstances_call TODO (InfraID cd)])"
       "StartMachines a cd = (Return None, [GetVPCInstances_call TODO (InfraID cd)])"
       "MachinesRunning a cd = (Return (True, Some [], None), [GetVPCInstances_call TODO (InfraID cd)])"
       "MachinesStopped a cd = (Return (True, Some [], None), [GetVPCInstances_call TODO (InfraID cd)])"
    if "instances = []"
    using that assms(1,2)
    by (simp_all add: StopMachines_def StartMachines_def MachinesRunning_def MachinesStopped_def
        getIBMCloudClusterInstances_def)
  with start show ?thesis by simp
qed

theorem StartMachines_symmetric_and_empty_listing_witness:
  "(ibmCloudClientFn (stubActuator [vm ''a'' ''running'', vm ''b'' ''stopped'']) cdX
      = Inr (stubClient [vm ''a'' ''running'', vm ''b'' ''stopped'']) \<and>
    API_GetVPCInstances (stubClient [vm ''a'' ''running'', vm ''b'' ''stopped'']) TODO (InfraID cdX)
      = Return (Inr [vm ''a'' ''running'', vm ''b'' ''stopped'']) \<and>
    Status (vm ''a'' ''running'') \<noteq> None \<and> Status (vm ''b'' ''stopped'') \<noteq> None \<and>
    StartMachines (stubActuator [vm ''a'' ''running'', vm ''b'' ''stopped'']) cdX
      = (Return None, [GetVPCInstances_call TODO ''x'', StartInstances_call [vm ''b'' ''stopped'']])) \<and>
   (ibmCloudClientFn (stubActuator []) cdX = Inr (stubClient []) \<and>
    API_GetVPCInstances (stubClient []) TODO (InfraID cdX) = Return (Inr []) \<and>
    StopMachines (stubActuator []) cdX = (Return None, [GetVPCInstances_call TODO ''x'']) \<and>
    StartMachines (stubActuator []) cdX = (Return None, [GetVPCInstances_call TODO ''x'']) \<and>
    MachinesRunning (stubActuator []) cdX = (Return (True, Some [], None), [GetVPCInstances_call TODO ''x'']) \<and>
    MachinesStopped (stubActuator []) cdX = (Return (True, Some [], None), [GetVPCInstances_call TODO ''x'']))"
proof -
  let ?A = "[vm ''a'' ''running'', vm ''b'' ''stopped'']"
  have a1: "ibmCloudClientFn (stubActuator ?A) cdX = Inr (stubClient ?A)"
    by (simp add: stubActuator_def)
  have a2: "API_GetVPCInstances (stubClient ?A) TODO (InfraID cdX) = Return (Inr ?A)"
    by (simp add: stubClient_def)
  have a3: "\<forall>i\<in>set ?A. Status i \<noteq> None"
    by (simp add: vm_def)
  have b1: "ibmCloudClientFn (stubActuator []) cdX = Inr (stubClient [])"
    by (simp add: stubActuator_def)
  have b2: "API_GetVPCInstances (stubClient []) TODO (InfraID cdX) = Return (Inr [])"
    by (simp add: stubClient_def)
  have b3: "\<forall>i\<in>set ([] :: Instance list). Status i \<noteq> None"
    by simp
  from StartMachines_symmetric_and_empty_listing[OF a1 a2 a3, THEN conjunct1]
  have A: "StartMachines (stubActuator ?A) cdX
      = (Return None, [GetVPCInstances_call TODO ''x'', StartInstances_call [vm ''b'' ''stopped'']])"
    by (simp add: statusIn_def vm_def stoppedOrStoppingStates_def stubClient_def cdX_def)
  from StartMachines_symmetric_and_empty_listing[OF b1 b2 b3, THEN conjunct2, THEN mp, OF refl]
  have B: "StopMachines (stubActuator []) cdX = (Return None, [GetVPCInstances_call TODO ''x'']) \<and>
    StartMachines (stubActuator []) cdX = (Return None, [GetVPCInstances_call TODO ''x'']) \<and>
    MachinesRunning (stubActuator []) cdX = (Return (True, Some [], None), [GetVPCInstances_call TODO ''x'']) \<and>
    MachinesStopped (stubActuator []) cdX = (Return (True, Some [], None), [GetVPCInstances_call TODO ''x''])"
    by (simp add: cdX_def)
  from a3 have "Status (vm ''a'' ''running'') \<noteq> None" "Status (vm ''b'' ''stopped'') \<noteq> None"
    by simp_all
  with a1 a2 A b1 b2 B show ?thesis by blast
qed

text \<open>
  Claim C4, amended.  An instance whose status is set but is none of running, stopped,
  pending and stopping is left out by every operation: \<open>StopMachines\<close> and \<open>StartMachines\<close>
  act, and \<open>MachinesRunning\<close> and \<open>MachinesStopped\<close> answer, exactly as they do on the
  listing without such instances.  It is therefore never acted on, and it is not reported
  as a straggler either: it does not keep either observer from answering true.
\<close>

theorem unknown_status_is_ignored:
  assumes "ibmCloudClientFn a cd = Inr c"
    and "API_GetVPCInstances c TODO (InfraID cd) = Return (Inr instances)"
    and "\<forall>i\<in>set instances. Status i \<noteq> None \<and> Name i \<noteq> None"
  shows "StopMachines a cd =
           (if filter (statusIn runningOrPendingStates) (filter (\<lambda>i. \<not> unknownStatus i) instances) = []
            then (Return None, [GetVPCInstances_call TODO (InfraID cd)])
            else (API_StopInstances c
                    (filter (statusIn runningOrPendingStates) (filter (\<lambda>i. \<not> unknownStatus i) instances)),
                  [GetVPCInstances_call TODO (InfraID cd),
                   StopInstances_call
                    (filter (statusIn runningOrPendingStates) (filter (\<lambda>i. \<not> unknownStatus i) instances))])) \<and>
         StartMachines a cd =
           (if filter (statusIn stoppedOrStoppingStates) (filter (\<lambda>i. \<not> unknownStatus i) instances) = []
            then (Return None, [GetVPCInstances_call TODO (InfraID cd)])
            else (API_StartInstances c
                    (filter (statusIn stoppedOrStoppingStates) (filter (\<lambda>i. \<not> unknownStatus i) instances)),
                  [GetVPCInstances_call TODO (InfraID cd),
                   StartInstances_call
                    (filter (statusIn stoppedOrStoppingStates) (filter (\<lambda>i. \<not> unknownStatus i) instances))])) \<and>
         MachinesRunning a cd =
           (Return (filter (statusIn notRunningStates) (filter (\<lambda>i. \<not> unknownStatus i) instances) = [],
                    Some (map (\<lambda>i. the (Name i))
                      (filter (statusIn notRunningStates) (filter (\<lambda>i. \<not> unknownStatus i) instances))),
                    None),
            [GetVPCInstances_call TODO (InfraID cd)]) \<and>
         MachinesStopped a cd =
           (Return (filter (statusIn notStoppedStates) (filter (\<lambda>i. \<not> unknownStatus i) instances) = [],
                    Some (map (\<lambda>i. the (Name i))
                      (filter (statusIn notStoppedStates) (filter (\<lambda>i. \<not> unknownStatus i) instances))),
                    None),
            [GetVPCInstances_call TODO (InfraID cd)])"
proof -
  from assms(3) have status: "\<forall>i\<in>set instances. Status i \<noteq> None"
    and names: "\<forall>i\<in>set (filter (statusIn states) instances). Name i \<noteq> None" for states
    by auto
  show ?thesis
    unfolding statusIn_known[OF package_sets_known(1)] statusIn_known[OF package_sets_known(2)]
      statusIn_known[OF package_sets_known(3)] statusIn_known[OF package_sets_known(4)]
    using StopMachines_listed[OF assms(1,2) status] StartMachines_listed[OF assms(1,2) status]
      MachinesRunning_listed[OF assms(1,2) status names] MachinesStopped_listed[OF assms(1,2) status names]
    by (intro conjI)
qed

theorem unknown_status_is_ignored_witness:
  "ibmCloudClientFn (stubActuator [vm ''a'' '''', vm ''b'' ''running'']) cdX
      = Inr (stubClient [vm ''a'' '''', vm ''b'' ''running'']) \<and>
   API_GetVPCInstances (stubClient [vm ''a'' '''', vm ''b'' ''running'']) TODO (InfraID cdX)
      = Return (Inr [vm ''a'' '''', vm ''b'' ''running'']) \<and>
   Status (vm ''a'' '''') \<noteq> None \<and> Name (vm ''a'' '''') \<noteq> None \<and>
   Status (vm ''b'' ''running'') \<noteq> None \<and> Name (vm ''b'' ''running'') \<noteq> None \<and>
   unknownStatus (vm ''a'' '''') \<and>
   StopMachines (stubActuator [vm ''a'' '''', vm ''b'' ''running'']) cdX
      = (Return None, [GetVPCInstances_call TODO ''x'', StopInstances_call [vm ''b'' ''running'']]) \<and>
   StartMachines (stubActuator [vm ''a'' '''', vm ''b'' ''running'']) cdX
      = (Return None, [GetVPCInstances_call TODO ''x'']) \<and>
   MachinesRunning (stubActuator [vm ''a'' '''', vm ''b'' ''running'']) cdX
      = (Return (True, Some [], None), [GetVPCInstances_call TODO ''x'']) \<and>
   MachinesStopped (stubActuator [vm ''a'' '''', vm ''b'' ''running'']) cdX
      = (Return (False, Some [''b''], None), [GetVPCInstances_call TODO ''x''])"
proof -
  let ?L = "[vm ''a'' '''', vm ''b'' ''running'']"
  have h1: "ibmCloudClientFn (stubActuator ?L) cdX = Inr (stubClient ?L)"
    by (simp add: stubActuator_def)
  have h2: "API_GetVPCInstances (stubClient ?L) TODO (InfraID cdX) = Return (Inr ?L)"
    by (simp add: stubClient_def)
  have h3: "\<forall>i\<in>set ?L. Status i \<noteq> None \<and> Name i \<noteq> None"
    by (simp add: vm_def)
  have u: "unknownStatus (vm ''a'' '''')" "\<not> unknownStatus (vm ''b'' ''running'')"
    by (simp_all add: unknownStatus_def vm_def state_sets)
  have known: "filter (\<lambda>i. \<not> unknownStatus i) ?L = [vm ''b'' ''running'']"
    using u by simp
  note inst = unknown_status_is_ignored[OF h1 h2 h3, unfolded known]
  have r1: "StopMachines (stubActuator ?L) cdX
      = (Return None, [GetVPCInstances_call TODO ''x'', StopInstances_call [vm ''b'' ''running'']])"
    using inst[THEN conjunct1]
    by (simp add: statusIn_def vm_def state_sets stubClient_def cdX_def)
  have r2: "StartMachines (stubActuator ?L) cdX = (Return None, [GetVPCInstances_call TODO ''x''])"
    using inst[THEN conjunct2, THEN conjunct1]
    by (simp add: statusIn_def vm_def state_sets stubClient_def cdX_def)
  have r3: "MachinesRunning (stubActuator ?L) cdX
      = (Return (True, Some [], None), [GetVPCInstances_call TODO ''x''])"
    using inst[THEN conjunct2, THEN conjunct2, THEN conjunct1]
    by (simp add: statusIn_def vm_def state_sets cdX_def)
  have r4: "MachinesStopped (stubActuator ?L) cdX
      = (Return (False, Some [''b''], None), [GetVPCInstances_call TODO ''x''])"
    using inst[THEN conjunct2, THEN conjunct2, THEN conjunct2]
    by (simp add: statusIn_def vm_def state_sets cdX_def)
  from h3 have "Status (vm ''a'' '''') \<noteq> None" "Name (vm ''a'' '''') \<noteq> None"
    "Status (vm ''b'' ''running'') \<noteq> None" "Name (vm ''b'' ''running'') \<noteq> None"
    by simp_all
  with h1 h2 u(1) r1 r2 r3 r4 show ?thesis by blast
qed

text \<open>
  Against claim C4 as stated: a cluster whose only instance has the empty status is
  reported as all running and as all stopped, with no straggler named.
\<close>

theorem unknown_status_not_reported_counterexample:
  "MachinesRunning (stubActuator [vm ''a'' '''']) cdX
     = (Return (True, Some [], None), [GetVPCInstances_call TODO ''x'']) \<and>
   MachinesStopped (stubActuator [vm ''a'' '''']) cdX
     = (Return (True, Some [], None), [GetVPCInstances_call TODO ''x''])"
  by (simp add: MachinesRunning_def MachinesStopped_def stubActuator_def stubClient_def
      getIBMCloudClusterInstances_def vm_def state_sets cdX_def)



lemma selectByName_filter:
  "selectByName infraID acc listed =
     (if \<forall>i\<in>set listed. Name i \<noteq> None
      then Return (acc @ filter (nameContains infraID) listed) else Panic)"
proof (induction listed arbitrary: acc)
  case Nil
  show ?case by simp
next
  case (Cons i rest)
  show ?case
  proof (cases "Name i")
    case None
    then show ?thesis by auto
  next
    case (Some n)
    then have "nameContains infraID i = strings_Contains n infraID"
      by (simp add: nameContains_def)
    with Some show ?thesis
      by (simp add: Cons.IH)
  qed
qed

text \<open>
  Claim C7.  Every instance that \<open>GetVPCInstances\<close> returns has a name that contains the
  infrastructure ID, and the result is exactly the instances of the provider's listing
  whose name contains it, in the listing's order: an instance whose name does not contain
  the ID is never returned.
\<close>

theorem GetVPCInstances_names_contain_infraID:
  assumes "fst (GetVPCInstances c ctx infraID) = Return (Inr instances)"
  shows "(\<forall>i\<in>set instances. \<exists>n. Name i = Some n \<and> strings_Contains n infraID) \<and>
         (\<exists>listed. vpcAPI_ListInstances (vpcAPI c) \<lparr>VPCName = Some (infraID @ ''-vpc'')\<rparr> = (Some listed, None) \<and>
                   instances = filter (nameContains infraID) (Instances listed))"
proof -
  from assms obtain listed where
    listed: "vpcAPI_ListInstances (vpcAPI c) \<lparr>VPCName = Some (infraID @ ''-vpc'')\<rparr> = (Some listed, None)"
    and sel: "selectByName infraID [] (Instances listed) = Return instances"
    by (auto simp: GetVPCInstances_def Let_def split: prod.splits option.splits result.splits)
  from sel have eq: "instances = filter (nameContains infraID) (Instances listed)"
    by (simp add: selectByName_filter split: if_splits)
  have "\<forall>i\<in>set instances. \<exists>n. Name i = Some n \<and> strings_Contains n infraID"
    unfolding eq by (auto simp: nameContains_def split: option.splits)
  with listed eq show ?thesis by blast
qed

theorem GetVPCInstances_names_contain_infraID_witness:
  "fst (GetVPCInstances (stubSDKClient [vm ''x-master-0'' ''running'', vm ''y-master-0'' ''running''] [] [])
          TODO ''x'')
     = Return (Inr [vm ''x-master-0'' ''running'']) \<and>
   (\<exists>n. Name (vm ''x-master-0'' ''running'') = Some n \<and> strings_Contains n ''x'') \<and>
   \<not> strings_Contains ''y-master-0'' ''x''"
proof -
  let ?c = "stubSDKClient [vm ''x-master-0'' ''running'', vm ''y-master-0'' ''running''] [] []"
  have h: "fst (GetVPCInstances ?c TODO ''x'') = Return (Inr [vm ''x-master-0'' ''running''])"
    by (simp add: GetVPCInstances_def stubSDKClient_def stubVpcV1_def vm_def
        strings_Contains_def sublist_Cons_right)
  from GetVPCInstances_names_contain_infraID[OF h, THEN conjunct1]
  have n: "\<exists>n. Name (vm ''x-master-0'' ''running'') = Some n \<and> strings_Contains n ''x''"
    by simp
  have "\<not> strings_Contains ''y-master-0'' ''x''"
    by (simp add: strings_Contains_def sublist_Cons_right)
  with h n show ?thesis by blast
qed

lemma GetSubnet_NotFound:
  "(\<exists>subnet. GetSubnet c ctx subnetID = Return (subnet, Some VPCResourceNotFoundError)) =
   (\<exists>r. fst (snd (vpcAPI_GetSubnet (vpcAPI c) subnetID)) = Some r \<and> StatusCode r = 404)"
  by (cases "vpcAPI_GetSubnet (vpcAPI c) subnetID")
     (auto simp: GetSubnet_def GetStatusCode_def http_StatusNotFound_def split: option.splits)

lemma GetVPC_regions_NotFound:
  "(\<exists>vpc. GetVPC_regions c vpcID regions = Return (vpc, Some VPCResourceNotFoundError)) =
   (\<forall>region\<in>set regions. regionMisses c vpcID region)"
proof (induction regions)
  case Nil
  then show ?case by simp
next
  case (Cons region regions)
  show ?case
  proof (cases "Endpoint region")
    case None
    then show ?thesis by (simp add: regionMisses_def)
  next
    case (Some endpoint)
    obtain vpc response err where
      lookup: "vpcAPI_GetVPC (vpcAPI c) (endpoint @ ''/v1'') vpcID = (vpc, response, err)"
      by (cases "vpcAPI_GetVPC (vpcAPI c) (endpoint @ ''/v1'') vpcID") auto
    from Some lookup Cons.IH show ?thesis
      by (auto simp: regionMisses_def GetStatusCode_def split: option.splits)
  qed
qed

lemma GetVPC_regions_failure:
  assumes "\<forall>r\<in>set missed. regionMisses c vpcID r"
    and "Endpoint region = Some endpoint"
    and "vpcAPI_SetServiceURL (vpcAPI c) (endpoint @ ''/v1'') = None"
    and "vpcAPI_GetVPC (vpcAPI c) (endpoint @ ''/v1'') vpcID = (vpc, Some response, Some err)"
    and "StatusCode response \<noteq> 404"
  shows "GetVPC_regions c vpcID (missed @ region # rest) = Return (None, Some (External err))"
  using assms
proof (induction missed)
  case Nil
  then show ?case by (simp add: GetStatusCode_def http_StatusNotFound_def split: option.splits)
next
  case (Cons r missed)
  then have IH: "GetVPC_regions c vpcID (missed @ region # rest) = Return (None, Some (External err))"
    by simp
  from Cons.prems(1) have miss: "regionMisses c vpcID r" by simp
  then obtain e where e: "Endpoint r = Some e" "vpcAPI_SetServiceURL (vpcAPI c) (e @ ''/v1'') = None"
    by (auto simp: regionMisses_def split: option.splits)
  obtain v resp er where lookup: "vpcAPI_GetVPC (vpcAPI c) (e @ ''/v1'') vpcID = (v, resp, er)"
    by (cases "vpcAPI_GetVPC (vpcAPI c) (e @ ''/v1'') vpcID") auto
  from miss e lookup IH show ?case
    by (auto simp: regionMisses_def GetStatusCode_def split: option.splits)
qed

text \<open>
  Claim C5, evaluated on three targeted instances when the provider rejects the action on
  the second.  Both methods stop after the second action.  The error of \<open>StopInstances\<close> is
  the provider's error under a fixed message; it is the same error when it is the third
  instance that is rejected, so it does not tell which instance failed.  The error of
  \<open>StartInstances\<close> carries the name of the instance.
\<close>

theorem StopInstances_error_omits_the_instance:
  "StopInstances (stubSDKClient [] [''id-b''] []) [vm ''a'' ''running'', vm ''b'' ''running'', vm ''c'' ''running'']
     = (Return (Some (Wrap (External ''boom'') ''failed to create stop instance action'')),
        [\<lparr>InstanceID = Some ''id-a'', Type = Some ''stop''\<rparr>,
         \<lparr>InstanceID = Some ''id-b'', Type = Some ''stop''\<rparr>]) \<and>
   fst (StopInstances (stubSDKClient [] [''id-c''] []) [vm ''a'' ''running'', vm ''b'' ''running'', vm ''c'' ''running''])
     = Return (Some (Wrap (External ''boom'') ''failed to create stop instance action'')) \<and>
   StartInstances (stubSDKClient [] [''id-b''] []) [vm ''a'' ''stopped'', vm ''b'' ''stopped'', vm ''c'' ''stopped'']
     = (Return (Some (Wrapf (External ''boom'') ''failed to create start instance action for instance %q'' [''b''])),
        [\<lparr>InstanceID = Some ''id-a'', Type = Some ''start''\<rparr>,
         \<lparr>InstanceID = Some ''id-b'', Type = Some ''start''\<rparr>])"
  by (simp add: StopInstances_def StartInstances_def stubSDKClient_def stubVpcV1_def vm_def
      CreateInstanceActionOptionsTypeStopConst_def CreateInstanceActionOptionsTypeStartConst_def)

text \<open>
  Claim C9, evaluated.  \<open>GetCISInstance\<close> and \<open>GetVPCInstances\<close> hand no context to the SDK
  call they make, neither the caller's nor one with a timeout, and what they return does
  not depend on the caller's context.
\<close>

theorem provider_calls_carry_no_context:
  "snd (GetCISInstance c ctx crnstr) = [SdkCall ''GetResourceInstance'' None] \<and>
   snd (GetVPCInstances c ctx infraID) = [SdkCall ''ListInstances'' None] \<and>
   GetCISInstance c ctx crnstr = GetCISInstance c ctx' crnstr \<and>
   GetVPCInstances c ctx infraID = GetVPCInstances c ctx' infraID"
  by (auto simp: GetCISInstance_def GetVPCInstances_def Let_def
      split: prod.splits option.splits result.splits)







lemma GetSubnet_no_response:
  "fst (snd (vpcAPI_GetSubnet (vpcAPI c) subnetID)) = None \<Longrightarrow> GetSubnet c ctx subnetID = Panic"
  by (cases "vpcAPI_GetSubnet (vpcAPI c) subnetID") (simp add: GetSubnet_def GetStatusCode_def)

lemma GetSubnet_other_status:
  assumes "vpcAPI_GetSubnet (vpcAPI c) subnetID = (subnet, Some response, err)"
    and "StatusCode response \<noteq> 404"
  shows "GetSubnet c ctx subnetID = Return (subnet, map_option External err)"
  using assms by (simp add: GetSubnet_def GetStatusCode_def http_StatusNotFound_def)

lemma GetVPC_regions_no_response:
  assumes "\<forall>r\<in>set missed. regionMisses c vpcID r"
    and "Endpoint region = Some endpoint"
    and "vpcAPI_SetServiceURL (vpcAPI c) (endpoint @ ''/v1'') = None"
    and "vpcAPI_GetVPC (vpcAPI c) (endpoint @ ''/v1'') vpcID = (vpc, None, Some err)"
  shows "GetVPC_regions c vpcID (missed @ region # rest) = Panic"
  using assms
proof (induction missed)
  case Nil
  then show ?case by (simp add: GetStatusCode_def split: option.splits)
next
  case (Cons r missed)
  then have IH: "GetVPC_regions c vpcID (missed @ region # rest) = Panic"
    by simp
  from Cons.prems(1) have miss: "regionMisses c vpcID r" by simp
  then obtain e where e: "Endpoint r = Some e" "vpcAPI_SetServiceURL (vpcAPI c) (e @ ''/v1'') = None"
    by (auto simp: regionMisses_def split: option.splits)
  obtain v resp er where lookup: "vpcAPI_GetVPC (vpcAPI c) (e @ ''/v1'') vpcID = (v, resp, er)"
    by (cases "vpcAPI_GetVPC (vpcAPI c) (e @ ''/v1'') vpcID") auto
  from miss e lookup IH show ?case
    by (auto simp: regionMisses_def GetStatusCode_def split: option.splits)
qed

text \<open>
  Claim C8, evaluated on a subnet lookup and a VPC lookup that fail.  With a response of
  status 404 both methods return the typed error, and with a response of status 500 both
  return the provider's error as it is.  When the failure comes with no response, both
  panic in \<^verbatim>\<open>detailedResponse.GetStatusCode()\<close>, which they call before they look at the
  error: no error is returned at all.
\<close>

theorem lookup_failure_without_response_panics:
  "GetSubnet (lookupClient [\<lparr>Endpoint = Some ''us''\<rparr>] None) TODO ''subnet-1'' = Panic \<and>
   GetVPC (lookupClient [\<lparr>Endpoint = Some ''us''\<rparr>] None) TODO ''vpc-1'' = Panic \<and>
   GetSubnet (lookupClient [\<lparr>Endpoint = Some ''us''\<rparr>] (Some \<lparr>StatusCode = 500\<rparr>)) TODO ''subnet-1''
     = Return (None, Some (External ''lookup failed'')) \<and>
   GetVPC (lookupClient [\<lparr>Endpoint = Some ''us''\<rparr>] (Some \<lparr>StatusCode = 500\<rparr>)) TODO ''vpc-1''
     = Return (None, Some (External ''lookup failed'')) \<and>
   GetSubnet (lookupClient [\<lparr>Endpoint = Some ''us''\<rparr>] (Some \<lparr>StatusCode = 404\<rparr>)) TODO ''subnet-1''
     = Return (None, Some VPCResourceNotFoundError) \<and>
   GetVPC (lookupClient [\<lparr>Endpoint = Some ''us''\<rparr>] (Some \<lparr>StatusCode = 404\<rparr>)) TODO ''vpc-1''
     = Return (None, Some VPCResourceNotFoundError)"
  by (simp add: GetSubnet_def GetVPC_def getVPCRegions_def lookupClient_def lookupVpcV1_def
      GetStatusCode_def http_StatusNotFound_def)

end
